theory Spec2Isabelle
  imports Main
begin

section \<open>Text\<close>

text \<open>
  Python text is modelled by \<^typ>\<open>string\<close>: a character stands for the code point of the
  same number, so the request body and the form fields range over the code points below
  256.  Decoded JSON strings may hold any code point (through \<open>\uXXXX\<close> escapes) and are
  lists of code points, \<^typ>\<open>int list\<close>.  Numbers that can grow large are integers
  throughout; positions in a text are natural numbers.
\<close>

type_synonym ustring = "int list"

abbreviation ustr :: "string \<Rightarrow> ustring" where
  "ustr s \<equiv> map of_char s"

definition dquote :: char where
  "dquote = CHR 0x22"

definition backslash :: char where
  "backslash = CHR 0x5C"

definition newline :: char where
  "newline = CHR 0x0A"

definition is_digit :: "char \<Rightarrow> bool" where
  "is_digit c = (48 \<le> (of_char c :: nat) \<and> (of_char c :: nat) \<le> 57)"

definition digit_val :: "char \<Rightarrow> int" where
  "digit_val c = of_char c - 48"

definition digits_val :: "string \<Rightarrow> int" where
  "digits_val ds = foldl (\<lambda>a c. 10 * a + digit_val c) 0 ds"

definition digit_char :: "int \<Rightarrow> char" where
  "digit_char d = char_of (48 + d)"

text \<open>\<open>str(n)\<close> and \<open>'%d' % n\<close> for a number that is not negative.\<close>

function str_int :: "int \<Rightarrow> string" where
  "str_int n = (if n < 10 then [digit_char n] else str_int (n div 10) @ [digit_char (n mod 10)])"
  by pat_completeness auto
termination
  by (relation "measure nat") auto

declare str_int.simps [simp del]

definition str_nat :: "nat \<Rightarrow> string" where
  "str_nat n = str_int (int n)"

text \<open>
  \<open>str.strip()\<close> removes the characters for which \<open>str.isspace()\<close> holds; below 256 these
  are the code points listed here.
\<close>

definition is_space :: "char \<Rightarrow> bool" where
  "is_space c = ((of_char c :: nat) \<in> {9, 10, 11, 12, 13, 28, 29, 30, 31, 32, 133, 160})"

definition strip :: "string \<Rightarrow> string" where
  "strip s = rev (dropWhile is_space (rev (dropWhile is_space s)))"

text \<open>
  \<open>str.upper()\<close>, with its result as code points.  Below 256 the letters \<open>a\<close> to \<open>z\<close> and
  the Latin-1 letters 224 to 254 (without the division sign 247) move down by 32, the sharp
  s (223) becomes \<open>SS\<close>, the micro sign (181) becomes the Greek capital mu (924) and the y
  with diaeresis (255) its capital (376); every other character stays.
\<close>

definition upper_char :: "char \<Rightarrow> ustring" where
  "upper_char c =
     (let n = (of_char c :: int)
      in if 97 \<le> n \<and> n \<le> 122 then [n - 32]
         else if n = 181 then [924]
         else if n = 223 then [83, 83]
         else if 224 \<le> n \<and> n \<le> 254 \<and> n \<noteq> 247 then [n - 32]
         else if n = 255 then [376]
         else [n])"

definition upper :: "string \<Rightarrow> ustring" where
  "upper s = concat (map upper_char s)"

definition lower_ascii :: "char \<Rightarrow> char" where
  "lower_ascii c =
     (if 65 \<le> (of_char c :: nat) \<and> (of_char c :: nat) \<le> 90
      then char_of ((of_char c :: nat) + 32) else c)"

text \<open>\<open>sep.join(xs)\<close>.\<close>

fun join :: "'a list \<Rightarrow> 'a list list \<Rightarrow> 'a list" where
  "join sep [] = []"
| "join sep [x] = x"
| "join sep (x # y # ys) = x @ sep @ join sep (y # ys)"


section \<open>Floats\<close>

text \<open>
  A Python \<open>float\<close> is an IEEE 754 double: \<open>Finite s m e\<close> is the number
  \<open>(-1)\<^sup>s \<sqdot> m \<sqdot> 2\<^sup>e\<close> with \<open>0 \<le> m < 2\<^sup>5\<^sup>3\<close> and \<open>-1074 \<le> e \<le> 971\<close>, where
  \<open>2\<^sup>5\<^sup>2 \<le> m\<close> unless \<open>e = -1074\<close>.  The two conversions the program uses are \<open>float(text)\<close>,
  which rounds the decimal number to the nearest double (ties to the even mantissa), and
  \<open>str(x)\<close>, which prints the shortest decimal number that rounds back to \<open>x\<close>.  Both are
  computed exactly, on fractions of integers.
\<close>

datatype pyfloat = Finite bool int int | Infinite bool | NaN

type_synonym ratio = "int \<times> int"

definition pow_q :: "int \<Rightarrow> int \<Rightarrow> ratio" where
  "pow_q b e = (if 0 \<le> e then (b ^ nat e, 1) else (1, b ^ nat (- e)))"

definition mul_q :: "ratio \<Rightarrow> ratio \<Rightarrow> ratio" where
  "mul_q x y = (fst x * fst y, snd x * snd y)"

definition div_q :: "ratio \<Rightarrow> ratio \<Rightarrow> ratio" where
  "div_q x y = (fst x * snd y, snd x * fst y)"

definition int_q :: "int \<Rightarrow> ratio" where
  "int_q n = (n, 1)"

definition le_q :: "ratio \<Rightarrow> ratio \<Rightarrow> bool" where
  "le_q x y = (fst x * snd y \<le> fst y * snd x)"

definition lt_q :: "ratio \<Rightarrow> ratio \<Rightarrow> bool" where
  "lt_q x y = (fst x * snd y < fst y * snd x)"

definition round_half_even :: "ratio \<Rightarrow> int" where
  "round_half_even x =
     (let q = fst x div snd x; r = fst x mod snd x
      in if snd x < 2 * r \<or> (2 * r = snd x \<and> odd q) then q + 1 else q)"

function bitlen :: "int \<Rightarrow> int" where
  "bitlen n = (if n \<le> 0 then 0 else 1 + bitlen (n div 2))"
  by pat_completeness auto
termination
  by (relation "measure nat") auto

declare bitlen.simps [simp del]

text \<open>
  Rounding a positive fraction \<open>x\<close> to a double: with \<open>2\<^sup>L \<le> x < 2\<^sup>L\<^sup>+\<^sup>1\<close> the mantissa has 53
  bits or, below \<open>2\<^sup>-\<^sup>1\<^sup>0\<^sup>2\<^sup>2\<close>, the bits above \<open>2\<^sup>-\<^sup>1\<^sup>0\<^sup>7\<^sup>4\<close>; a number that rounds beyond the
  largest double becomes infinite.
\<close>

definition binary_exponent :: "ratio \<Rightarrow> int" where
  "binary_exponent x =
     (let l = bitlen (fst x) - bitlen (snd x)
      in if le_q (pow_q 2 l) x then l else l - 1)"

definition make_double :: "bool \<Rightarrow> int \<Rightarrow> int \<Rightarrow> pyfloat" where
  "make_double s m e =
     (if m = 2 ^ 53 then (if 971 < e + 1 then Infinite s else Finite s (2 ^ 52) (e + 1))
      else if 971 < e then Infinite s
      else Finite s m e)"

definition round_at :: "bool \<Rightarrow> ratio \<Rightarrow> int \<Rightarrow> pyfloat" where
  "round_at s x e = make_double s (round_half_even (div_q x (pow_q 2 e))) e"

definition round_double :: "bool \<Rightarrow> ratio \<Rightarrow> pyfloat" where
  "round_double s x =
     (if fst x = 0 then Finite s 0 (- 1074)
      else round_at s x (max (binary_exponent x - 52) (- 1074)))"

subsection \<open>\<open>float(text)\<close>\<close>

text \<open>
  \<open>float\<close> strips white space (the ASCII kind and, above 127, the Unicode kind), accepts
  single underscores between digits, an optional sign, then \<open>inf\<close>, \<open>infinity\<close> or \<open>nan\<close> in
  any case, or a decimal number with an optional exponent.  \<open>None\<close> is \<open>ValueError\<close>.
\<close>

definition is_float_space :: "char \<Rightarrow> bool" where
  "is_float_space c = ((of_char c :: nat) \<in> {9, 10, 11, 12, 13, 32, 133, 160})"

fun remove_underscores :: "char \<Rightarrow> string \<Rightarrow> string option" where
  "remove_underscores prev [] = (if prev = CHR ''_'' then None else Some [])"
| "remove_underscores prev (c # cs) =
     (if c = CHR ''_''
      then (if is_digit prev then remove_underscores c cs else None)
      else if prev = CHR ''_'' \<and> \<not> is_digit c then None
      else map_option ((#) c) (remove_underscores c cs))"

definition split_sign :: "string \<Rightarrow> bool \<times> string" where
  "split_sign s =
     (case s of
        c # t \<Rightarrow> if c = CHR ''-'' then (True, t) else if c = CHR ''+'' then (False, t) else (False, s)
      | [] \<Rightarrow> (False, s))"

definition parse_decimal :: "string \<Rightarrow> ratio option" where
  "parse_decimal s =
     (let ip = takeWhile is_digit s;
          r1 = dropWhile is_digit s;
          fp = (case r1 of c # t \<Rightarrow> if c = CHR ''.'' then takeWhile is_digit t else [] | [] \<Rightarrow> []);
          r2 = (case r1 of c # t \<Rightarrow> if c = CHR ''.'' then dropWhile is_digit t else r1 | [] \<Rightarrow> []);
          mant = digits_val (ip @ fp)
      in if ip = [] \<and> fp = [] then None
         else
           (case r2 of
              [] \<Rightarrow> Some (mul_q (int_q mant) (pow_q 10 (- int (length fp))))
            | c # t \<Rightarrow>
                if c = CHR ''e'' \<or> c = CHR ''E'' then
                  (let ds = snd (split_sign t);
                       ex = (if fst (split_sign t) then - digits_val ds else digits_val ds)
                   in if ds \<noteq> [] \<and> list_all is_digit ds
                      then Some (mul_q (int_q mant) (pow_q 10 (ex - int (length fp))))
                      else None)
                else None))"

definition float_from_string_inner :: "string \<Rightarrow> pyfloat option" where
  "float_from_string_inner s =
     (let neg = fst (split_sign s); body = snd (split_sign s); word = map lower_ascii body
      in if word = ''inf'' \<or> word = ''infinity'' then Some (Infinite neg)
         else if word = ''nan'' then Some NaN
         else map_option (round_double neg) (parse_decimal body))"

definition py_float :: "string \<Rightarrow> pyfloat option" where
  "py_float v =
     (let s = rev (dropWhile is_float_space (rev (dropWhile is_float_space v)))
      in if s = [] then None
         else if CHR ''_'' \<in> set s
         then (case remove_underscores (CHR 0x00) s of
                 None \<Rightarrow> None
               | Some d \<Rightarrow> float_from_string_inner d)
         else float_from_string_inner s)"

subsection \<open>\<open>str(x)\<close>\<close>

definition value_q :: "int \<Rightarrow> int \<Rightarrow> ratio" where
  "value_q m e = mul_q (int_q m) (pow_q 2 e)"

text \<open>The decimal exponent \<open>k\<close> of a positive double: \<open>10\<^sup>k \<le> x < 10\<^sup>k\<^sup>+\<^sup>1\<close>.\<close>

definition decimal_exponent :: "int \<Rightarrow> int \<Rightarrow> int" where
  "decimal_exponent m e =
     (let est = ((bitlen m + e - 1) * 30103) div 100000
      in if le_q (pow_q 10 (est + 1)) (value_q m e) then est + 1
         else if lt_q (value_q m e) (pow_q 10 est) then est - 1
         else est)"

text \<open>
  \<open>rounds_to m e y\<close>: the fraction \<open>y\<close> rounds to the double \<open>m \<sqdot> 2\<^sup>e\<close>, that is, it lies
  between the midpoints to the two neighbouring doubles; the midpoints themselves round to
  the even mantissa.
\<close>

definition rounds_to :: "int \<Rightarrow> int \<Rightarrow> ratio \<Rightarrow> bool" where
  "rounds_to m e y =
     (let hi = value_q (2 * m + 1) (e - 1);
          lo = (if m = 2 ^ 52 \<and> - 1074 < e then value_q (4 * m - 1) (e - 2)
                else value_q (2 * m - 1) (e - 1))
      in if even m then le_q lo y \<and> le_q y hi else lt_q lo y \<and> lt_q y hi)"

text \<open>
  The decimal number with \<open>n\<close> digits that rounds to the double and is nearest to it, as
  digits \<open>d\<close> and exponent \<open>k\<close> (the number is \<open>d \<sqdot> 10\<^sup>k\<close>), if there is one.
\<close>

definition nearest_of :: "int \<Rightarrow> int \<Rightarrow> int \<Rightarrow> ratio \<Rightarrow> int \<Rightarrow> (int \<times> int) option" where
  "nearest_of m e k t d0 =
     (let ok0 = rounds_to m e (mul_q (int_q d0) (pow_q 10 k));
          ok1 = rounds_to m e (mul_q (int_q (d0 + 1)) (pow_q 10 k))
      in if ok0 \<and> ok1
         then (if lt_q (2 * fst t, snd t) (int_q (2 * d0 + 1))
                  \<or> (\<not> lt_q (int_q (2 * d0 + 1)) (2 * fst t, snd t) \<and> even d0)
               then Some (d0, k) else Some (d0 + 1, k))
         else if ok0 then Some (d0, k)
         else if ok1 then Some (d0 + 1, k)
         else None)"

definition candidate_at :: "int \<Rightarrow> int \<Rightarrow> int \<Rightarrow> ratio \<Rightarrow> (int \<times> int) option" where
  "candidate_at m e k t = nearest_of m e k t (fst t div snd t)"

definition candidate :: "int \<Rightarrow> int \<Rightarrow> int \<Rightarrow> nat \<Rightarrow> (int \<times> int) option" where
  "candidate m e dexp n =
     candidate_at m e (dexp - (int n - 1)) (div_q (value_q m e) (pow_q 10 (dexp - (int n - 1))))"

fun first_candidate :: "int \<Rightarrow> int \<Rightarrow> int \<Rightarrow> nat list \<Rightarrow> (int \<times> int) option" where
  "first_candidate m e dexp [] = None"
| "first_candidate m e dexp (n # ns) =
     (case candidate m e dexp n of
        Some dk \<Rightarrow> Some dk
      | None \<Rightarrow> first_candidate m e dexp ns)"

function strip_zeros :: "int \<Rightarrow> int \<Rightarrow> int \<times> int" where
  "strip_zeros d k = (if 0 < d \<and> d mod 10 = 0 then strip_zeros (d div 10) (k + 1) else (d, k))"
  by pat_completeness auto
termination
  by (relation "measure (\<lambda>(d, k). nat d)") auto

declare strip_zeros.simps [simp del]

text \<open>Seventeen digits always suffice; the last case is the nearest number with 17 digits.\<close>

definition shortest_digits :: "int \<Rightarrow> int \<Rightarrow> int \<times> int" where
  "shortest_digits m e =
     (case first_candidate m e (decimal_exponent m e) [1 ..< 18] of
        Some dk \<Rightarrow> strip_zeros (fst dk) (snd dk)
      | None \<Rightarrow> strip_zeros (round_half_even (div_q (value_q m e) (pow_q 10 (decimal_exponent m e - 16))))
                             (decimal_exponent m e - 16))"

text \<open>
  The layout of \<open>repr\<close>: \<open>decpt\<close> is the position of the decimal point in the digits; the
  exponent form is used from \<open>1e+16\<close> on and below \<open>0.0001\<close>.
\<close>

definition format_float_short :: "string \<Rightarrow> int \<Rightarrow> string" where
  "format_float_short digits decpt =
     (if decpt \<le> - 4 \<or> 16 < decpt then
        (let ex = decpt - 1;
             es = str_int \<bar>ex\<bar>
         in take 1 digits @ (if 1 < length digits then ''.'' @ drop 1 digits else [])
            @ ''e'' @ (if ex < 0 then ''-'' else ''+'') @ (if length es < 2 then ''0'' @ es else es))
      else if decpt \<le> 0 then ''0.'' @ replicate (nat (- decpt)) (CHR ''0'') @ digits
      else if int (length digits) \<le> decpt
        then digits @ replicate (nat decpt - length digits) (CHR ''0'') @ ''.0''
      else take (nat decpt) digits @ ''.'' @ drop (nat decpt) digits)"

definition format_digits :: "int \<times> int \<Rightarrow> string" where
  "format_digits dk = format_float_short (str_int (fst dk)) (snd dk + int (length (str_int (fst dk))))"

fun repr_float :: "pyfloat \<Rightarrow> string" where
  "repr_float NaN = ''nan''"
| "repr_float (Infinite s) = (if s then ''-inf'' else ''inf'')"
| "repr_float (Finite s m e) =
     (if s then ''-'' else []) @ (if m = 0 then ''0.0'' else format_digits (shortest_digits m e))"




section \<open>JSON decoding\<close>

text \<open>
  \<open>json.JSONDecoder().raw_decode\<close>, as the scanner of CPython 3.11 decodes a text: one JSON
  value from the given position, with the position after it.  A Python value that JSON can
  denote is a \<open>json\<close>; \<open>JNull\<close> is \<open>None\<close>, and a \<open>dict\<close> keeps its keys in the order of their
  first occurrence, each with the value of its last occurrence.
\<close>

datatype json =
    JNull
  | JBool bool
  | JInt int
  | JFloat pyfloat
  | JStr ustring
  | JArr "json list"
  | JObj "(ustring \<times> json) list"

text \<open>
  The exceptions of the decoder: \<open>StopIteration\<close> never leaves \<open>raw_decode\<close>, which turns it
  into a \<open>JSONDecodeError\<close> (message and position); \<open>ValueError\<close> is an exception of
  another class, with its message.  The recursion limit of the interpreter, which ends the
  decoding of a deeply nested text with a \<open>RecursionError\<close>, is not part of the model.
\<close>

datatype scan_error =
    StopIteration nat
  | JSONDecodeError string nat
  | ValueError string

definition char_at :: "string \<Rightarrow> nat \<Rightarrow> char option" where
  "char_at s i = (if i < length s then Some (s ! i) else None)"

definition substr_at :: "string \<Rightarrow> nat \<Rightarrow> string \<Rightarrow> bool" where
  "substr_at s i w = (take (length w) (drop i s) = w)"

definition is_json_ws :: "char \<Rightarrow> bool" where
  "is_json_ws c = ((of_char c :: nat) \<in> {32, 9, 10, 13})"

definition skip_ws :: "string \<Rightarrow> nat \<Rightarrow> nat" where
  "skip_ws s idx = idx + length (takeWhile is_json_ws (drop idx s))"

definition dict_set :: "(ustring \<times> json) list \<Rightarrow> ustring \<Rightarrow> json \<Rightarrow> (ustring \<times> json) list" where
  "dict_set d k v =
     (if k \<in> fst ` set d then map (\<lambda>p. if fst p = k then (k, v) else p) d else d @ [(k, v)])"

subsection \<open>Strings\<close>

definition hex_val :: "char \<Rightarrow> int option" where
  "hex_val c =
     (let n = (of_char c :: int)
      in if 48 \<le> n \<and> n \<le> 57 then Some (n - 48)
         else if 97 \<le> n \<and> n \<le> 102 then Some (n - 87)
         else if 65 \<le> n \<and> n \<le> 70 then Some (n - 55)
         else None)"

definition hex4 :: "string \<Rightarrow> nat \<Rightarrow> int option" where
  "hex4 s i =
     (let hs = map hex_val (take 4 (drop i s))
      in if length hs = 4 \<and> None \<notin> set hs
         then Some (foldl (\<lambda>a h. 16 * a + the h) 0 hs)
         else None)"

definition simple_escape :: "char \<Rightarrow> int option" where
  "simple_escape c =
     (if c = dquote then Some 0x22
      else if c = backslash then Some 0x5C
      else if c = CHR ''/'' then Some 0x2F
      else if c = CHR ''b'' then Some 0x08
      else if c = CHR ''f'' then Some 0x0C
      else if c = CHR ''n'' then Some 0x0A
      else if c = CHR ''r'' then Some 0x0D
      else if c = CHR ''t'' then Some 0x09
      else None)"

text \<open>
  The escape whose backslash is at position \<open>b\<close>: the code point and the position after
  the escape.  A high surrogate followed by a low one is a single code point.
\<close>

definition scan_escape :: "string \<Rightarrow> nat \<Rightarrow> nat \<Rightarrow> scan_error + (int \<times> nat)" where
  "scan_escape s start b =
     (case char_at s (b + 1) of
        None \<Rightarrow> Inl (JSONDecodeError ''Unterminated string starting at'' start)
      | Some c \<Rightarrow>
          if c \<noteq> CHR ''u'' then
            (case simple_escape c of
               None \<Rightarrow> Inl (JSONDecodeError (''Invalid '' @ [backslash] @ ''escape'') b)
             | Some code \<Rightarrow> Inr (code, b + 2))
          else if length s \<le> b + 6 then
            Inl (JSONDecodeError (''Invalid '' @ [backslash] @ ''uXXXX escape'') (b + 1))
          else
            (case hex4 s (b + 2) of
               None \<Rightarrow> Inl (JSONDecodeError (''Invalid '' @ [backslash] @ ''uXXXX escape'') (b + 1))
             | Some c1 \<Rightarrow>
                 if 0xD800 \<le> c1 \<and> c1 \<le> 0xDBFF \<and> b + 12 < length s
                    \<and> char_at s (b + 6) = Some backslash \<and> char_at s (b + 7) = Some (CHR ''u'')
                 then
                   (case hex4 s (b + 8) of
                      None \<Rightarrow> Inl (JSONDecodeError (''Invalid '' @ [backslash] @ ''uXXXX escape'') (b + 7))
                    | Some c2 \<Rightarrow>
                        if 0xDC00 \<le> c2 \<and> c2 \<le> 0xDFFF
                        then Inr (0x10000 + ((c1 - 0xD800) * 1024 + (c2 - 0xDC00)), b + 12)
                        else Inr (c1, b + 6))
                 else Inr (c1, b + 6)))"

lemma scan_escape_progress: "scan_escape s start b = Inr (code, e) \<Longrightarrow> b < e"
  by (auto simp: scan_escape_def split: option.splits if_splits)

definition is_plain :: "char \<Rightarrow> bool" where
  "is_plain c = (c \<noteq> dquote \<and> c \<noteq> backslash \<and> \<not> (of_char c :: nat) \<le> 0x1F)"

function scanstring_loop :: "string \<Rightarrow> nat \<Rightarrow> nat \<Rightarrow> ustring \<Rightarrow> scan_error + (ustring \<times> nat)" where
  "scanstring_loop s start pos acc =
     (let chunk = takeWhile is_plain (drop pos s);
          nxt = pos + length chunk
      in case char_at s nxt of
           None \<Rightarrow> Inl (JSONDecodeError ''Unterminated string starting at'' start)
         | Some c \<Rightarrow>
             if c = dquote then Inr (acc @ ustr chunk, nxt + 1)
             else if c = backslash then
               (case scan_escape s start nxt of
                  Inl err \<Rightarrow> Inl err
                | Inr r \<Rightarrow> scanstring_loop s start (snd r) (acc @ ustr chunk @ [fst r]))
             else Inl (JSONDecodeError ''Invalid control character at'' nxt))"
  by pat_completeness auto
termination
proof (relation "measure (\<lambda>(s, start, pos, acc). length s - pos)")
  show "wf (measure (\<lambda>(s, start, pos, acc). length s - pos))" by simp
next
  fix s :: string and start pos :: nat and acc :: ustring and chunk nxt c r
  assume "chunk = takeWhile is_plain (drop pos s)" "nxt = pos + length chunk"
    "char_at s nxt = Some c" "scan_escape s start nxt = Inr r"
  then have "nxt < length s" "nxt < snd r" "pos \<le> nxt"
    using scan_escape_progress [of s start nxt "fst r" "snd r"]
    by (auto simp: char_at_def split: if_splits)
  then show "((s, start, snd r, acc @ ustr chunk @ [fst r]), (s, start, pos, acc))
      \<in> measure (\<lambda>(s, start, pos, acc). length s - pos)"
    by simp
qed

declare scanstring_loop.simps [simp del]

text \<open>\<open>scanstring(s, pos)\<close>: \<open>pos\<close> is the position after the opening quote.\<close>

definition scanstring :: "string \<Rightarrow> nat \<Rightarrow> scan_error + (ustring \<times> nat)" where
  "scanstring s pos = scanstring_loop s (pos - 1) pos []"

lemma scanstring_loop_progress: "scanstring_loop s start pos acc = Inr (k, e) \<Longrightarrow> pos < e"
proof (induction s start pos acc rule: scanstring_loop.induct)
  case (1 s start pos acc)
  define chunk where "chunk = takeWhile is_plain (drop pos s)"
  define nxt where "nxt = pos + length chunk"
  have le: "pos \<le> nxt" by (simp add: nxt_def)
  from "1.prems" obtain c where c: "char_at s nxt = Some c"
    by (subst (asm) scanstring_loop.simps) (auto simp: Let_def chunk_def nxt_def split: option.splits)
  show ?case
  proof (cases "c = dquote")
    case True
    with "1.prems" c le show ?thesis
      by (subst (asm) scanstring_loop.simps) (auto simp: Let_def chunk_def nxt_def)
  next
    case False
    with "1.prems" c obtain r where bs: "c = backslash" and r: "scan_escape s start nxt = Inr r"
      and rec: "scanstring_loop s start (snd r) (acc @ ustr chunk @ [fst r]) = Inr (k, e)"
      by (subst (asm) scanstring_loop.simps)
         (auto simp: Let_def chunk_def nxt_def split: if_splits sum.splits)
    from r have "nxt < snd r" using scan_escape_progress [of s start nxt "fst r" "snd r"] by simp
    moreover have "snd r < e"
      using "1.IH" [OF chunk_def nxt_def c False bs r rec] .
    ultimately show ?thesis using le by simp
  qed
qed

lemma scanstring_progress: "scanstring s pos = Inr (k, e) \<Longrightarrow> pos < e"
  unfolding scanstring_def by (rule scanstring_loop_progress)

subsection \<open>Numbers\<close>

text \<open>
  An optional minus sign, \<open>0\<close> or digits that do not start with \<open>0\<close>, then optionally a
  point with digits and an exponent with digits.  Without fraction and exponent the number
  is an \<open>int\<close>, otherwise \<open>float\<close> converts the matched text.  \<open>int\<close> refuses a text of
  more than \<open>sys.int_info.default_max_str_digits\<close> digits with a \<open>ValueError\<close>.
\<close>

definition max_str_digits :: nat where
  "max_str_digits = 4300"

definition match_number :: "string \<Rightarrow> nat \<Rightarrow> scan_error + (json \<times> nat)" where
  "match_number s start =
     (let r0 = drop start s;
          neg = (case r0 of c # t \<Rightarrow> c = CHR ''-'' | [] \<Rightarrow> False);
          r1 = (if neg then tl r0 else r0);
          ip = (case r1 of
                  c # t \<Rightarrow> if c = CHR ''0'' then [c]
                           else if is_digit c then c # takeWhile is_digit t
                           else []
                | [] \<Rightarrow> []);
          r2 = drop (length ip) r1;
          fp = (case r2 of
                  c # d # t \<Rightarrow> if c = CHR ''.'' \<and> is_digit d then c # d # takeWhile is_digit t else []
                | _ \<Rightarrow> []);
          r3 = drop (length fp) r2;
          ep = (case r3 of
                  c # t \<Rightarrow>
                    if c = CHR ''e'' \<or> c = CHR ''E'' then
                      (let sg = (case t of x # u \<Rightarrow> if x = CHR ''-'' \<or> x = CHR ''+'' then [x] else [] | [] \<Rightarrow> []);
                           ds = takeWhile is_digit (drop (length sg) t)
                       in if ds = [] then [] else c # sg @ ds)
                    else []
                | [] \<Rightarrow> []);
          numstr = (if neg then ''-'' else []) @ ip @ fp @ ep
      in if ip = [] then Inl (StopIteration start)
         else if fp = [] \<and> ep = [] then
           (if max_str_digits < length ip then
              Inl (ValueError (''Exceeds the limit ('' @ str_nat max_str_digits
                     @ '' digits) for integer string conversion: value has ''
                     @ str_nat (length ip)
                     @ '' digits; use sys.set_int_max_str_digits() to increase the limit''))
            else Inr (JInt (if neg then - digits_val ip else digits_val ip), start + length numstr))
         else
           (case py_float numstr of
              None \<Rightarrow> Inl (ValueError (''could not convert string to float: '' @ numstr))
            | Some x \<Rightarrow> Inr (JFloat x, start + length numstr)))"

lemma match_number_progress: "match_number s start = Inr (v, e) \<Longrightarrow> start < e"
  unfolding match_number_def Let_def
  by (simp split: if_splits option.splits) fastforce+

subsection \<open>Values\<close>

lemma skip_ws_le: "idx \<le> skip_ws s idx"
  by (simp add: skip_ws_def)

lemma char_at_Some_less: "char_at s i = Some c \<Longrightarrow> i < length s"
  by (simp add: char_at_def split: if_splits)

text \<open>
  \<open>scan_once\<close> dispatches on the character at \<open>idx\<close>; \<open>object_loop\<close> and \<open>array_loop\<close> are
  the loops over the members of an object (from the quote of a key) and over the elements of
  an array.  Every value that is decoded ends after the position where it starts
  (\<open>progress\<close> in the termination proof); with this the three functions terminate, as each
  call is on a later position of the same text.
\<close>

function scan_once :: "string \<Rightarrow> nat \<Rightarrow> scan_error + (json \<times> nat)"
  and object_loop :: "string \<Rightarrow> nat \<Rightarrow> (ustring \<times> json) list \<Rightarrow> scan_error + (json \<times> nat)"
  and array_loop :: "string \<Rightarrow> nat \<Rightarrow> json list \<Rightarrow> scan_error + (json \<times> nat)"
where
  "scan_once s idx =
     (case char_at s idx of
        None \<Rightarrow> Inl (StopIteration idx)
      | Some c \<Rightarrow>
          if c = dquote then
            (case scanstring s (idx + 1) of
               Inl err \<Rightarrow> Inl err
             | Inr r \<Rightarrow> Inr (JStr (fst r), snd r))
          else if c = CHR ''{'' then
            (if char_at s (skip_ws s (idx + 1)) = Some (CHR ''}'')
             then Inr (JObj [], skip_ws s (idx + 1) + 1)
             else object_loop s (skip_ws s (idx + 1)) [])
          else if c = CHR ''['' then
            (if char_at s (skip_ws s (idx + 1)) = Some (CHR '']'')
             then Inr (JArr [], skip_ws s (idx + 1) + 1)
             else array_loop s (skip_ws s (idx + 1)) [])
          else if substr_at s idx ''null'' then Inr (JNull, idx + 4)
          else if substr_at s idx ''true'' then Inr (JBool True, idx + 4)
          else if substr_at s idx ''false'' then Inr (JBool False, idx + 5)
          else if substr_at s idx ''NaN'' then Inr (JFloat NaN, idx + 3)
          else if substr_at s idx ''Infinity'' then Inr (JFloat (Infinite False), idx + 8)
          else if substr_at s idx ''-Infinity'' then Inr (JFloat (Infinite True), idx + 9)
          else match_number s idx)"
| "object_loop s idx d =
     (if char_at s idx \<noteq> Some dquote then
        Inl (JSONDecodeError ''Expecting property name enclosed in double quotes'' idx)
      else
        (case scanstring s (idx + 1) of
           Inl err \<Rightarrow> Inl err
         | Inr k \<Rightarrow>
             if char_at s (skip_ws s (snd k)) \<noteq> Some (CHR '':'') then
               Inl (JSONDecodeError ''Expecting ':' delimiter'' (skip_ws s (snd k)))
             else
               (case scan_once s (skip_ws s (skip_ws s (snd k) + 1)) of
                  Inl err \<Rightarrow> Inl err
                | Inr v \<Rightarrow>
                    if char_at s (skip_ws s (snd v)) = Some (CHR ''}'') then
                      Inr (JObj (dict_set d (fst k) (fst v)), skip_ws s (snd v) + 1)
                    else if char_at s (skip_ws s (snd v)) \<noteq> Some (CHR '','') then
                      Inl (JSONDecodeError ''Expecting ',' delimiter'' (skip_ws s (snd v)))
                    else
                      object_loop s (skip_ws s (skip_ws s (snd v) + 1)) (dict_set d (fst k) (fst v)))))"
| "array_loop s idx vs =
     (case scan_once s idx of
        Inl err \<Rightarrow> Inl err
      | Inr v \<Rightarrow>
          if char_at s (skip_ws s (snd v)) = Some (CHR '']'') then
            Inr (JArr (vs @ [fst v]), skip_ws s (snd v) + 1)
          else if char_at s (skip_ws s (snd v)) \<noteq> Some (CHR '','') then
            Inl (JSONDecodeError ''Expecting ',' delimiter'' (skip_ws s (snd v)))
          else
            array_loop s (skip_ws s (skip_ws s (snd v) + 1)) (vs @ [fst v]))"
  by pat_completeness auto
termination
proof -
  have progress:
    "scan_once_object_loop_array_loop_dom (Inl (s, idx)) \<Longrightarrow>
       (\<forall>r. scan_once s idx = Inr r \<longrightarrow> idx < snd r)"
    "scan_once_object_loop_array_loop_dom (Inr (Inl (s', idx', d))) \<Longrightarrow>
       (\<forall>r. object_loop s' idx' d = Inr r \<longrightarrow> idx' < snd r)"
    "scan_once_object_loop_array_loop_dom (Inr (Inr (s'', idx'', vs))) \<Longrightarrow>
       (\<forall>r. array_loop s'' idx'' vs = Inr r \<longrightarrow> idx'' < snd r)"
    for s idx s' idx' d s'' idx'' vs
  proof (induction rule: scan_once_object_loop_array_loop.pinduct)
    case (1 s idx)
    have ws: "idx < skip_ws s (idx + 1)"
      using skip_ws_le [of "idx + 1" s] by simp
    show ?case
    proof (intro allI impI)
      fix r assume r: "scan_once s idx = Inr r"
      from r obtain c where c: "char_at s idx = Some c"
        by (subst (asm) scan_once.psimps [OF "1.hyps"]) (auto split: option.splits)
      note eq = r [unfolded scan_once.psimps [OF "1.hyps"] c option.case]
      show "idx < snd r"
      proof (cases "c = dquote")
        case True
        with eq obtain k where "scanstring s (idx + 1) = Inr k" "snd r = snd k"
          by (auto split: sum.splits)
        then show ?thesis using scanstring_progress [of s "idx + 1" "fst k" "snd k"] by simp
      next
        case nq: False
        show ?thesis
        proof (cases "c = CHR ''{''")
          case True
          show ?thesis
          proof (cases "char_at s (skip_ws s (idx + 1)) = Some (CHR ''}'')")
            case True
            with eq nq \<open>c = CHR ''{''\<close> ws show ?thesis by auto
          next
            case False
            with eq nq \<open>c = CHR ''{''\<close> have "object_loop s (skip_ws s (idx + 1)) [] = Inr r" by simp
            with "1.IH"(1) [OF c nq \<open>c = CHR ''{''\<close> False] ws show ?thesis by (cases r) auto
          qed
        next
          case no: False
          show ?thesis
          proof (cases "c = CHR ''[''")
            case True
            show ?thesis
            proof (cases "char_at s (skip_ws s (idx + 1)) = Some (CHR '']'')")
              case True
              with eq nq no \<open>c = CHR ''[''\<close> ws show ?thesis by auto
            next
              case False
              with eq nq no \<open>c = CHR ''[''\<close> have "array_loop s (skip_ws s (idx + 1)) [] = Inr r" by simp
              with "1.IH"(2) [OF c nq no \<open>c = CHR ''[''\<close> False] ws show ?thesis by (cases r) auto
            qed
          next
            case False
            with eq nq no show ?thesis
              using match_number_progress [of s idx "fst r" "snd r"]
              by (auto split: if_splits)
          qed
        qed
      qed
    qed
  next
    case (2 s idx d)
    show ?case
    proof (intro allI impI)
      fix r assume r: "object_loop s idx d = Inr r"
      note eq = r [unfolded object_loop.psimps [OF "2.hyps"]]
      from eq have q: "\<not> char_at s idx \<noteq> Some dquote" by (auto split: if_splits)
      with eq obtain k where k: "scanstring s (idx + 1) = Inr k"
        by (auto split: sum.splits)
      have k_gt: "idx + 1 < snd k"
        using scanstring_progress [of s "idx + 1" "fst k" "snd k"] k by simp
      from eq q k have colon: "\<not> char_at s (skip_ws s (snd k)) \<noteq> Some (CHR '':'')"
        by (auto split: if_splits)
      with eq q k obtain v where v: "scan_once s (skip_ws s (skip_ws s (snd k) + 1)) = Inr v"
        by (auto split: sum.splits)
      have "skip_ws s (skip_ws s (snd k) + 1) < snd v"
        using "2.IH"(1) [OF q k colon] v by blast
      then have v_gt: "idx < snd v"
        using k_gt skip_ws_le [of "snd k" s] skip_ws_le [of "skip_ws s (snd k) + 1" s] by linarith
      have v_ws: "idx < skip_ws s (snd v)"
        using v_gt skip_ws_le [of "snd v" s] by linarith
      show "idx < snd r"
      proof (cases "char_at s (skip_ws s (snd v)) = Some (CHR ''}'')")
        case True
        with eq q k colon v v_ws show ?thesis by auto
      next
        case False
        with eq q k colon v have comma: "\<not> char_at s (skip_ws s (snd v)) \<noteq> Some (CHR '','')"
          by (auto split: if_splits)
        with eq q k colon v False
        have "object_loop s (skip_ws s (skip_ws s (snd v) + 1)) (dict_set d (fst k) (fst v)) = Inr r"
          by auto
        with "2.IH"(2) [OF q k colon v False comma]
        have "skip_ws s (skip_ws s (snd v) + 1) < snd r" by blast
        with v_ws skip_ws_le [of "skip_ws s (snd v) + 1" s] show ?thesis by linarith
      qed
    qed
  next
    case (3 s idx vs)
    show ?case
    proof (intro allI impI)
      fix r assume r: "array_loop s idx vs = Inr r"
      note eq = r [unfolded array_loop.psimps [OF "3.hyps"]]
      from eq obtain v where v: "scan_once s idx = Inr v"
        by (auto split: sum.splits)
      have v_gt: "idx < snd v" using "3.IH"(1) v by blast
      have v_ws: "idx < skip_ws s (snd v)"
        using v_gt skip_ws_le [of "snd v" s] by linarith
      show "idx < snd r"
      proof (cases "char_at s (skip_ws s (snd v)) = Some (CHR '']'')")
        case True
        with eq v v_ws show ?thesis by auto
      next
        case False
        with eq v have comma: "\<not> char_at s (skip_ws s (snd v)) \<noteq> Some (CHR '','')"
          by (auto split: if_splits)
        with eq v False
        have "array_loop s (skip_ws s (skip_ws s (snd v) + 1)) (vs @ [fst v]) = Inr r"
          by auto
        with "3.IH"(2) [OF v False comma]
        have "skip_ws s (skip_ws s (snd v) + 1) < snd r" by blast
        with v_ws skip_ws_le [of "skip_ws s (snd v) + 1" s] show ?thesis by linarith
      qed
    qed
  qed
  show ?thesis
  proof (relation "measure (\<lambda>x. case x of
             Inl (s, idx) \<Rightarrow> 2 * (length s - idx)
           | Inr (Inl (s, idx, d)) \<Rightarrow> 2 * (length s - idx) + 1
           | Inr (Inr (s, idx, vs)) \<Rightarrow> 2 * (length s - idx) + 1)", goal_cases)
    case 1
    show ?case by simp
  next
    case (2 s idx c)
    then show ?case
      using skip_ws_le [of "idx + 1" s] char_at_Some_less [of s idx c] by simp
  next
    case (3 s idx c)
    then show ?case
      using skip_ws_le [of "idx + 1" s] char_at_Some_less [of s idx c] by simp
  next
    case (4 s idx d k)
    then show ?case
      using scanstring_progress [of s "idx + 1" "fst k" "snd k"]
        skip_ws_le [of "snd k" s] skip_ws_le [of "skip_ws s (snd k) + 1" s]
      by simp
  next
    case (5 s idx d k v)
    then have "skip_ws s (skip_ws s (snd k) + 1) < snd v"
      using progress(1) by blast
    moreover from 5 have "idx < length s"
      using char_at_Some_less [of s idx dquote] by simp
    ultimately show ?case
      using 5 scanstring_progress [of s "idx + 1" "fst k" "snd k"]
        skip_ws_le [of "snd k" s] skip_ws_le [of "skip_ws s (snd k) + 1" s]
        skip_ws_le [of "snd v" s] skip_ws_le [of "skip_ws s (snd v) + 1" s]
      by simp
  next
    case (6 s idx vs)
    show ?case by simp
  next
    case (7 s idx vs v)
    then have "idx < snd v"
      using progress(1) by blast
    moreover from 7 have "skip_ws s (snd v) < length s"
      using char_at_Some_less [of s "skip_ws s (snd v)" "CHR '',''"] by simp
    ultimately show ?case
      using skip_ws_le [of "snd v" s] skip_ws_le [of "skip_ws s (snd v) + 1" s]
      by simp
  qed
qed

declare scan_once.simps [simp del] object_loop.simps [simp del] array_loop.simps [simp del]

definition raw_decode :: "string \<Rightarrow> scan_error + (json \<times> nat)" where
  "raw_decode s =
     (case scan_once s 0 of
        Inl (StopIteration i) \<Rightarrow> Inl (JSONDecodeError ''Expecting value'' i)
      | Inl err \<Rightarrow> Inl err
      | Inr r \<Rightarrow> Inr r)"



section \<open>The server\<close>

subsection \<open>State\<close>

text \<open>
  The three globals of \<open>app.py\<close>: the deque \<open>history\<close> (newest record at the left end, at
  most \<open>MAX_HISTORY\<close> records), the list \<open>commands\<close> and the counter \<open>cmd_counter\<close>.  A handler
  is a function from the request and the state to its response and the new state: the
  request running alone.  Where a handler reads a global outside the lock that guards its
  update (\<open>send_command\<close>), its two parts are functions of their own, so that requests that
  overlap can be put together from them.
\<close>

record command =
  cmd_id :: int
  symbol :: ustring
  direction :: ustring
  volume :: pyfloat
  sl :: "pyfloat option"
  tp :: "pyfloat option"
  timestamp :: string

record ingestion_record =
  received_at :: string
  ip :: "string option"
  http_method :: string
  path :: string
  headers :: "(string \<times> string) list"
  body_raw :: string
  parsed :: json
  parse_error :: "ustring option"
  parse_error_detail :: "string option"
  remaining_data :: "string option"
  account :: json
  server :: json
  balance :: json
  equity :: json
  floating_pnl :: json

record state =
  history :: "ingestion_record list"
  commands :: "command list"
  cmd_counter :: int

definition MAX_HISTORY :: nat where
  "MAX_HISTORY = 50"

definition init_state :: state where
  "init_state = \<lparr>history = [], commands = [], cmd_counter = 0\<rparr>"

text \<open>\<open>deque.appendleft\<close> with \<open>maxlen\<close>: a full deque drops its right end.\<close>

definition appendleft :: "'a \<Rightarrow> 'a list \<Rightarrow> 'a list" where
  "appendleft x d = take MAX_HISTORY (x # d)"

text \<open>The clock: \<open>datetime.now()\<close> is part of a request, \<open>strftime\<close> formats it.\<close>

record datetime =
  year :: nat
  month :: nat
  day :: nat
  hour :: nat
  minute :: nat
  second :: nat

definition pad2 :: "nat \<Rightarrow> string" where
  "pad2 n = (if n < 10 then ''0'' @ str_nat n else str_nat n)"

definition strftime_time :: "datetime \<Rightarrow> string" where
  "strftime_time t = pad2 (hour t) @ '':'' @ pad2 (minute t) @ '':'' @ pad2 (second t)"

definition strftime_full :: "datetime \<Rightarrow> string" where
  "strftime_full t =
     str_nat (year t) @ ''-'' @ pad2 (month t) @ ''-'' @ pad2 (day t) @ '' '' @ strftime_time t"

text \<open>
  A response is a body with status and headers, or \<open>redirect(url)\<close>.  \<open>url_for('index')\<close> is
  the path \<open>/\<close>.
\<close>

datatype response =
    Response ustring nat "(string \<times> string) list"
  | Redirect string

definition url_for_index :: string where
  "url_for_index = ''/''"

text \<open>An exception that leaves a handler; Flask answers it with status 500.\<close>

datatype exn = AttributeError string

subsection \<open>\<open>format_command\<close>\<close>

definition format_command :: "command \<Rightarrow> ustring" where
  "format_command cmd =
     (let base = direction cmd @ ustr '','' @ symbol cmd @ ustr '','' @ ustr (repr_float (volume cmd))
      in if sl cmd \<noteq> None \<and> tp cmd \<noteq> None
           then base @ ustr '','' @ ustr (repr_float (the (sl cmd))) @ ustr '',''
                  @ ustr (repr_float (the (tp cmd)))
         else if sl cmd \<noteq> None then base @ ustr '','' @ ustr (repr_float (the (sl cmd))) @ ustr '',0''
         else if tp cmd \<noteq> None then base @ ustr '',0,'' @ ustr (repr_float (the (tp cmd)))
         else base)"

subsection \<open>\<open>index\<close>\<close>

text \<open>
  The two values \<open>index\<close> computes from the history under the lock: \<open>hist_list\<close>, the
  reversed deque, and \<open>latest_record\<close>, its first element.  (\<open>index\<close> then hands
  \<open>latest_record\<close> to \<open>extract_latest_details\<close>, which adds a field to every position of
  that record; this and the page it renders are not part of the model.)
\<close>

definition index_hist_list :: "state \<Rightarrow> ingestion_record list" where
  "index_hist_list st = rev (history st)"

definition index_latest_record :: "state \<Rightarrow> ingestion_record option" where
  "index_latest_record st = (case index_hist_list st of [] \<Rightarrow> None | r # rs \<Rightarrow> Some r)"

subsection \<open>\<open>mt4_webhook\<close>\<close>

text \<open>
  What the handler reads from the request: the body as text, the headers (looked up by
  name, and as a dictionary), the address of the client, the clock, and the text that
  \<open>traceback.format_exc()\<close> gives for an exception of the decoder.  Output to the log
  (\<open>print\<close>) is not part of the model.
\<close>

record request =
  get_data :: string
  headers_get :: "string \<Rightarrow> string option"
  headers_dict :: "(string \<times> string) list"
  remote_addr :: "string option"
  now :: datetime
  format_exc :: "scan_error \<Rightarrow> string"

definition get_client_ip :: "request \<Rightarrow> string option" where
  "get_client_ip req =
     (if headers_get req ''X-Real-Ip'' \<noteq> None \<and> headers_get req ''X-Real-Ip'' \<noteq> Some []
        then headers_get req ''X-Real-Ip''
      else if headers_get req ''X-Forwarded-For'' \<noteq> None
        then headers_get req ''X-Forwarded-For''
      else remote_addr req)"

text \<open>\<open>str(e)\<close> of an exception of the decoder on the document \<open>doc\<close>.\<close>

definition lineno :: "string \<Rightarrow> nat \<Rightarrow> nat" where
  "lineno doc pos = length (filter (\<lambda>c. c = newline) (take pos doc)) + 1"

definition colno :: "string \<Rightarrow> nat \<Rightarrow> nat" where
  "colno doc pos =
     (if newline \<in> set (take pos doc)
      then pos - (length (take pos doc) - 1
                  - length (takeWhile (\<lambda>c. c \<noteq> newline) (rev (take pos doc))))
      else pos + 1)"

fun str_exc :: "string \<Rightarrow> scan_error \<Rightarrow> string" where
  "str_exc doc (JSONDecodeError msg pos) =
     msg @ '': line '' @ str_nat (lineno doc pos) @ '' column '' @ str_nat (colno doc pos)
       @ '' (char '' @ str_nat pos @ '')''"
| "str_exc doc (ValueError msg) = msg"
| "str_exc doc (StopIteration i) = str_nat i"

text \<open>The prefix of the reason for an exception of another class, as code points.\<close>

definition unknown_exception :: ustring where
  "unknown_exception = [26410, 30693, 24322, 24120, 58, 32]"

definition remaining_of :: "string \<Rightarrow> nat \<Rightarrow> string option" where
  "remaining_of cleaned_body idx =
     (let remaining = strip (drop idx cleaned_body)
      in if remaining \<noteq> [] then Some (take 200 remaining) else None)"

text \<open>
  The \<open>try\<close> statement: the four variables \<open>parsed_json\<close>, \<open>parse_error\<close>,
  \<open>parse_error_detail\<close> and \<open>remaining_data\<close> after it, for each outcome of \<open>raw_decode\<close>.
\<close>

fun try_decode :: "request \<Rightarrow> string \<Rightarrow> scan_error + (json \<times> nat)
    \<Rightarrow> json \<times> ustring option \<times> string option \<times> string option" where
  "try_decode req cleaned_body (Inr (parsed_json, idx)) =
     (parsed_json, None, None, remaining_of cleaned_body idx)"
| "try_decode req cleaned_body (Inl (JSONDecodeError msg pos)) =
     (JNull, Some (ustr (str_exc cleaned_body (JSONDecodeError msg pos))),
      Some (format_exc req (JSONDecodeError msg pos)), None)"
| "try_decode req cleaned_body (Inl e) =
     (JNull, Some (unknown_exception @ ustr (str_exc cleaned_body e)),
      Some (format_exc req e), None)"

text \<open>Truth of a value in a condition, and the name of its type.\<close>

fun float_nonzero :: "pyfloat \<Rightarrow> bool" where
  "float_nonzero (Finite s m e) = (m \<noteq> 0)"
| "float_nonzero (Infinite s) = True"
| "float_nonzero NaN = True"

fun truthy :: "json \<Rightarrow> bool" where
  "truthy JNull = False"
| "truthy (JBool b) = b"
| "truthy (JInt i) = (i \<noteq> 0)"
| "truthy (JFloat x) = float_nonzero x"
| "truthy (JStr s) = (s \<noteq> [])"
| "truthy (JArr vs) = (vs \<noteq> [])"
| "truthy (JObj d) = (d \<noteq> [])"

fun type_name :: "json \<Rightarrow> string" where
  "type_name JNull = ''NoneType''"
| "type_name (JBool b) = ''bool''"
| "type_name (JInt i) = ''int''"
| "type_name (JFloat x) = ''float''"
| "type_name (JStr s) = ''str''"
| "type_name (JArr vs) = ''list''"
| "type_name (JObj d) = ''dict''"

definition dict_get :: "(ustring \<times> json) list \<Rightarrow> ustring \<Rightarrow> json" where
  "dict_get d k = (case map_of d k of None \<Rightarrow> JNull | Some v \<Rightarrow> v)"

text \<open>\<open>v.get(k)\<close>: only a \<open>dict\<close> has the method.\<close>

fun attr_get :: "json \<Rightarrow> ustring \<Rightarrow> exn + json" where
  "attr_get (JObj d) k = Inr (dict_get d k)"
| "attr_get v k =
     Inl (AttributeError ([CHR 0x27] @ type_name v @ [CHR 0x27] @ '' object has no attribute ''
                          @ [CHR 0x27] @ ''get'' @ [CHR 0x27]))"

text \<open>\<open>parsed_json.get(k) if parsed_json else None\<close>.\<close>

definition headline :: "json \<Rightarrow> string \<Rightarrow> exn + json" where
  "headline parsed_json k = (if truthy parsed_json then attr_get parsed_json (ustr k) else Inr JNull)"

fun bind :: "'e + 'a \<Rightarrow> ('a \<Rightarrow> 'e + 'b) \<Rightarrow> 'e + 'b" where
  "bind (Inl e) f = Inl e"
| "bind (Inr x) f = f x"

text \<open>The dictionary \<open>record\<close>; its five headline fields are evaluated in this order.\<close>

definition make_record :: "request \<Rightarrow> json \<times> ustring option \<times> string option \<times> string option
    \<Rightarrow> exn + ingestion_record" where
  "make_record req vars =
     bind (headline (fst vars) ''account'') (\<lambda>a.
     bind (headline (fst vars) ''server'') (\<lambda>s.
     bind (headline (fst vars) ''balance'') (\<lambda>b.
     bind (headline (fst vars) ''equity'') (\<lambda>e.
     bind (headline (fst vars) ''floating_pnl'') (\<lambda>f.
       Inr \<lparr>received_at = strftime_full (now req),
            ip = get_client_ip req,
            http_method = ''POST'',
            path = ''/web/api/echo'',
            headers = headers_dict req,
            body_raw = get_data req,
            parsed = fst vars,
            parse_error = fst (snd vars),
            parse_error_detail = fst (snd (snd vars)),
            remaining_data = snd (snd (snd vars)),
            account = a, server = s, balance = b, equity = e, floating_pnl = f\<rparr>)))))"

text \<open>The pending commands as lines, and the queue cleared, under \<open>commands_lock\<close>.\<close>

definition drain :: "state \<Rightarrow> ustring list \<times> state" where
  "drain st =
     (if commands st \<noteq> [] then (map format_command (commands st), st\<lparr>commands := []\<rparr>)
      else ([], st))"

definition respond :: "ustring list \<Rightarrow> response" where
  "respond response_lines =
     (if response_lines \<noteq> []
      then Response (join (ustr [newline]) response_lines) 200
             [(''Content-Type'', ''text/plain; charset=utf-8'')]
      else Response (ustr ''NOCOMMAND'') 200 [(''Content-Type'', ''text/plain; charset=utf-8'')])"

definition append_and_drain :: "ingestion_record \<Rightarrow> state \<Rightarrow> response \<times> state" where
  "append_and_drain r st =
     (respond (fst (drain (st\<lparr>history := appendleft r (history st)\<rparr>))),
      snd (drain (st\<lparr>history := appendleft r (history st)\<rparr>)))"

definition mt4_webhook :: "request \<Rightarrow> state \<Rightarrow> exn + (response \<times> state)" where
  "mt4_webhook req st =
     bind (make_record req
             (try_decode req (strip (get_data req)) (raw_decode (strip (get_data req)))))
       (\<lambda>r. Inr (append_and_drain r st))"

subsection \<open>\<open>send_command\<close>, \<open>delete_command\<close>, \<open>clear_commands\<close>\<close>

text \<open>\<open>request.form.get(k, '')\<close>.\<close>

definition form_get :: "(string \<Rightarrow> string option) \<Rightarrow> string \<Rightarrow> string" where
  "form_get form k = (case form k of None \<Rightarrow> [] | Some v \<Rightarrow> v)"

text \<open>\<open>float(s) if s else None\<close>; the outer \<open>None\<close> is \<open>ValueError\<close>.\<close>

definition float_if :: "string \<Rightarrow> pyfloat option option" where
  "float_if s = (if s \<noteq> [] then map_option Some (py_float s) else Some None)"

text \<open>
  The handler up to the lock: the fields of the form, the two early returns, and the
  dictionary \<open>cmd\<close> with the counter read as \<open>id\<close>.  \<open>None\<close> is an early return.
\<close>

definition build_command :: "(string \<Rightarrow> string option) \<Rightarrow> datetime \<Rightarrow> int \<Rightarrow> command option" where
  "build_command form t counter =
     (let symbol' = upper (strip (form_get form ''symbol''));
          direction' = upper (strip (form_get form ''direction''));
          volume' = strip (form_get form ''volume'');
          sl' = strip (form_get form ''sl'');
          tp' = strip (form_get form ''tp'')
      in if symbol' = [] \<or> direction' \<notin> set [ustr ''BUY'', ustr ''SELL''] \<or> volume' = [] then None
         else if py_float volume' = None \<or> float_if sl' = None \<or> float_if tp' = None then None
         else Some \<lparr>cmd_id = counter, symbol = symbol', direction = direction',
                    volume = the (py_float volume'), sl = the (float_if sl'),
                    tp = the (float_if tp'), timestamp = strftime_time t\<rparr>)"

text \<open>Under \<open>commands_lock\<close>: the command is appended and the counter incremented.\<close>

definition enqueue :: "command \<Rightarrow> state \<Rightarrow> state" where
  "enqueue cmd st = st\<lparr>commands := commands st @ [cmd], cmd_counter := cmd_counter st + 1\<rparr>"

text \<open>The handler when no other request runs between its two parts.\<close>

definition send_command :: "(string \<Rightarrow> string option) \<Rightarrow> datetime \<Rightarrow> state \<Rightarrow> response \<times> state" where
  "send_command form t st =
     (if build_command form t (cmd_counter st) = None then (Redirect url_for_index, st)
      else (Redirect url_for_index, enqueue (the (build_command form t (cmd_counter st))) st))"

text \<open>
  The server is started with \<open>app.run\<close>, which handles every request in a thread of its own.
  The handler reads \<open>cmd_counter\<close> for the \<open>id\<close> (line 198) before it takes \<open>commands_lock\<close>
  (line 206), so two requests can both build their commands from the counter of the same
  state and then pass the lock one after the other.  \<open>locked_part\<close> is the second part of
  the handler for the result of the first, and \<open>send_command_overlapping\<close> is this run of
  two requests.
\<close>

fun locked_part :: "command option \<Rightarrow> state \<Rightarrow> state" where
  "locked_part None st = st"
| "locked_part (Some cmd) st = enqueue cmd st"

definition send_command_overlapping ::
  "(string \<Rightarrow> string option) \<Rightarrow> datetime \<Rightarrow> (string \<Rightarrow> string option) \<Rightarrow> datetime \<Rightarrow> state \<Rightarrow> state" where
  "send_command_overlapping form1 t1 form2 t2 st =
     locked_part (build_command form2 t2 (cmd_counter st))
       (locked_part (build_command form1 t1 (cmd_counter st)) st)"

text \<open>
  \<open>commands.pop(index)\<close> inside the bounds.  The route converts \<open>index\<close> with \<open>int\<close>, which
  matches digits only; the function itself takes any integer.
\<close>

definition delete_command :: "int \<Rightarrow> state \<Rightarrow> response \<times> state" where
  "delete_command index st =
     (if 0 \<le> index \<and> index < int (length (commands st))
      then (Redirect url_for_index,
            st\<lparr>commands := take (nat index) (commands st) @ drop (Suc (nat index)) (commands st)\<rparr>)
      else (Redirect url_for_index, st))"

definition clear_commands :: "state \<Rightarrow> response \<times> state" where
  "clear_commands st = (Redirect url_for_index, st\<lparr>commands := []\<rparr>)"

subsection \<open>Sequences of requests\<close>

text \<open>
  Requests that change the state, handled one after another.  A handler that raises leaves
  the state as it found it: \<open>mt4_webhook\<close> raises before it touches the history or the queue.
\<close>

datatype http_request =
    Post_echo request
  | Post_send_command "string \<Rightarrow> string option" datetime
  | Post_delete_command int
  | Post_clear_commands

fun after_echo :: "exn + (response \<times> state) \<Rightarrow> state \<Rightarrow> state" where
  "after_echo (Inl e) st = st"
| "after_echo (Inr r) st = snd r"

fun handle :: "http_request \<Rightarrow> state \<Rightarrow> state" where
  "handle (Post_echo req) st = after_echo (mt4_webhook req st) st"
| "handle (Post_send_command form t) st = snd (send_command form t st)"
| "handle (Post_delete_command index) st = snd (delete_command index st)"
| "handle Post_clear_commands st = snd (clear_commands st)"

fun run :: "http_request list \<Rightarrow> state \<Rightarrow> state" where
  "run [] st = st"
| "run (r # rs) st = run rs (handle r st)"

text \<open>The record that a call of \<open>mt4_webhook\<close> has put into the history.\<close>

fun recorded :: "exn + (response \<times> state) \<Rightarrow> ingestion_record option" where
  "recorded (Inl e) = None"
| "recorded (Inr r) = (case history (snd r) of [] \<Rightarrow> None | x # xs \<Rightarrow> Some x)"

fun response_of :: "exn + (response \<times> state) \<Rightarrow> response option" where
  "response_of (Inl e) = None"
| "response_of (Inr r) = Some (fst r)"

text \<open>\<open>0 < x\<close> for a float.\<close>

fun float_positive :: "pyfloat \<Rightarrow> bool" where
  "float_positive (Finite s m e) = (\<not> s \<and> 0 < m)"
| "float_positive (Infinite s) = (\<not> s)"
| "float_positive NaN = False"

subsection \<open>Example requests\<close>

definition example_time :: datetime where
  "example_time = \<lparr>year = 2024, month = 1, day = 2, hour = 3, minute = 4, second = 5\<rparr>"

definition example_request :: request where
  "example_request =
     \<lparr>get_data = ''not json'', headers_get = (\<lambda>k. None), headers_dict = [],
      remote_addr = Some ''127.0.0.1'', now = example_time, format_exc = (\<lambda>e. [])\<rparr>"

text \<open>An object, then 250 letters \<open>x\<close> between blanks.\<close>

definition long_body :: string where
  \<open>long_body = ''{"a":1}  '' @ replicate 250 (CHR ''x'') @ '' ''\<close>

definition example_form :: "string \<Rightarrow> string option" where
  "example_form =
     map_of [(''symbol'', ''eurusd''), (''direction'', ''buy''), (''volume'', ''0.10''),
             (''sl'', ''1.1000'')]"

definition plain_form :: "string \<Rightarrow> string option" where
  "plain_form = map_of [(''symbol'', ''eurusd''), (''direction'', ''buy''), (''volume'', ''0.10'')]"

definition negative_form :: "string \<Rightarrow> string option" where
  "negative_form = map_of [(''symbol'', ''EURUSD''), (''direction'', ''BUY''), (''volume'', ''-1'')]"

definition no_symbol_form :: "string \<Rightarrow> string option" where
  "no_symbol_form = map_of [(''direction'', ''BUY''), (''volume'', ''1'')]"

text \<open>
  A symbol with a line feed in the middle (and white space at both ends), and one with
  letters beyond ASCII (between a blank and a tab).
\<close>

definition two_line_symbol :: string where
  "two_line_symbol = '' eur'' @ [newline] @ ''usd'' @ [newline]"




section \<open>Properties\<close>

subsection \<open>Evaluations\<close>

declare repr_float.simps [simp del]

lemma strip_examples:
  "strip [] = []"
  "strip ''5'' = ''5''"
  "strip ''0'' = ''0''"
  "strip ''[1]'' = ''[1]''"
  "strip ''not json'' = ''not json''"
  "strip ''  '' = []"
  \<open>strip ''{"a":1}{"b":2}'' = ''{"a":1}{"b":2}''\<close>
  "strip ''-1'' = ''-1''"
  "strip ''0.10'' = ''0.10''"
  "strip ''1.1000'' = ''1.1000''"
  "upper (strip ''eurusd'') = ustr ''EURUSD''"
  "upper (strip ''EURUSD'') = ustr ''EURUSD''"
  "upper (strip ''buy'') = ustr ''BUY''"
  "upper (strip ''BUY'') = ustr ''BUY''"
  "upper (strip ''sell'') = ustr ''SELL''"
  "upper (strip two_line_symbol) = ustr ''EUR'' @ 10 # ustr ''USD''"
  "upper (strip [CHR 0x20, CHR 0xB5, CHR 0xFF, CHR 0xDF, CHR 0xE9, CHR 0xF7, CHR 0x09])
     = [924, 376, 83, 83, 201, 247]"
  by code_simp+

lemma decode_examples:
  "raw_decode [] = Inl (JSONDecodeError ''Expecting value'' 0)"
  "raw_decode ''not json'' = Inl (JSONDecodeError ''Expecting value'' 0)"
  "raw_decode ''5'' = Inr (JInt 5, 1)"
  "raw_decode ''0'' = Inr (JInt 0, 1)"
  "raw_decode ''[1]'' = Inr (JArr [JInt 1], 3)"
  \<open>raw_decode ''{"a":1}{"b":2}'' = Inr (JObj [(ustr ''a'', JInt 1)], 7)\<close>
  by code_simp+

lemma remaining_examples:
  \<open>remaining_of ''{"a":1}{"b":2}'' 7 = Some ''{"b":2}''\<close>
  "remaining_of ''5'' 1 = None"
  "remaining_of ''0'' 1 = None"
  "remaining_of ''[1]'' 3 = None"
  by code_simp+

lemma long_body_examples:
  \<open>raw_decode (strip long_body) = Inr (JObj [(ustr ''a'', JInt 1)], 7)\<close>
  \<open>remaining_of (strip long_body) 7 = Some (replicate 200 (CHR ''x''))\<close>
  by code_simp+

lemma str_exc_examples:
  "str_exc [] (JSONDecodeError ''Expecting value'' 0) = ''Expecting value: line 1 column 1 (char 0)''"
  "str_exc ''not json'' (JSONDecodeError ''Expecting value'' 0) = ''Expecting value: line 1 column 1 (char 0)''"
  by code_simp+

lemma float_examples:
  "py_float ''-1'' = Some (Finite True 4503599627370496 (- 52))"
  "py_float ''0.10'' = Some (Finite False 7205759403792794 (- 56))"
  "py_float ''1.1000'' = Some (Finite False 4953959590107546 (- 52))"
  "repr_float (Finite False 7205759403792794 (- 56)) = ''0.1''"
  "repr_float (Finite False 4953959590107546 (- 52)) = ''1.1''"
  "repr_float (Finite True 4503599627370496 (- 52)) = ''-1.0''"
  by code_simp+

lemma build_example_form:
  "build_command example_form t c =
     Some \<lparr>cmd_id = c, symbol = ustr ''EURUSD'', direction = ustr ''BUY'',
           volume = Finite False 7205759403792794 (- 56),
           sl = Some (Finite False 4953959590107546 (- 52)), tp = None,
           timestamp = strftime_time t\<rparr>"
  by (simp add: build_command_def example_form_def form_get_def float_if_def strip_examples
        float_examples)

lemma build_plain_form:
  "build_command plain_form t c =
     Some \<lparr>cmd_id = c, symbol = ustr ''EURUSD'', direction = ustr ''BUY'',
           volume = Finite False 7205759403792794 (- 56), sl = None, tp = None,
           timestamp = strftime_time t\<rparr>"
  by (simp add: build_command_def plain_form_def form_get_def float_if_def strip_examples
        float_examples)

lemma build_no_symbol_form: "build_command no_symbol_form t c = None"
  by (simp add: build_command_def no_symbol_form_def form_get_def strip_examples upper_def)

lemma build_negative_form:
  "build_command negative_form t c =
     Some \<lparr>cmd_id = c, symbol = ustr ''EURUSD'', direction = ustr ''BUY'',
           volume = Finite True 4503599627370496 (- 52), sl = None, tp = None,
           timestamp = strftime_time t\<rparr>"
  by (simp add: build_command_def negative_form_def form_get_def float_if_def strip_examples
        float_examples)

subsection \<open>Numbers as text\<close>






















subsection \<open>The history\<close>

lemma appendleft_Cons: "appendleft x d = x # take 49 d"
  by (simp add: appendleft_def MAX_HISTORY_def)

text \<open>
  After the records \<open>rs\<close> have been appended (the last one first in \<open>rs\<close>), the deque holds
  the \<open>MAX_HISTORY\<close> newest of them, newest first.
\<close>

lemma foldr_appendleft: "foldr appendleft rs [] = take MAX_HISTORY rs"
proof (induction rs)
  case Nil
  show ?case by simp
next
  case (Cons r rs)
  then show ?case by (simp add: appendleft_def MAX_HISTORY_def)
qed

lemma ring_length:
  "length (index_hist_list (st\<lparr>history := foldr appendleft rs []\<rparr>)) = min (length rs) MAX_HISTORY"
  by (simp add: foldr_appendleft index_hist_list_def)

text \<open>
  C2.  After two reports, first \<open>r1\<close> and then \<open>r2\<close>, the list \<open>hist_list\<close> that \<open>index\<close>
  computes is \<open>[r1, r2]\<close> and \<open>latest_record\<close> is \<open>r1\<close>: the snapshot has the length the claim
  states (\<open>ring_length\<close>), but its first element is the oldest record that the deque holds, not
  the one appended last.  The same for two requests to \<open>/web/api/echo\<close> with the bodies \<open>{}\<close>
  and \<open>not json\<close> from the initial state.
\<close>

theorem snapshot_oldest_first:
  "index_hist_list (st\<lparr>history := appendleft r2 (appendleft r1 [])\<rparr>) = [r1, r2]
   \<and> index_latest_record (st\<lparr>history := appendleft r2 (appendleft r1 [])\<rparr>) = Some r1
   \<and> map body_raw (index_hist_list
        (run [Post_echo (example_request\<lparr>get_data := ''{}''\<rparr>), Post_echo example_request] init_state))
       = [''{}'', ''not json'']
   \<and> map_option body_raw (index_latest_record
        (run [Post_echo (example_request\<lparr>get_data := ''{}''\<rparr>), Post_echo example_request] init_state))
       = Some ''{}''"
proof -
  have "map body_raw (index_hist_list
        (run [Post_echo (example_request\<lparr>get_data := ''{}''\<rparr>), Post_echo example_request] init_state))
       = [''{}'', ''not json'']"
    by code_simp
  moreover have "map_option body_raw (index_latest_record
        (run [Post_echo (example_request\<lparr>get_data := ''{}''\<rparr>), Post_echo example_request] init_state))
       = Some ''{}''"
    by code_simp
  ultimately show ?thesis
    by (simp add: index_hist_list_def index_latest_record_def appendleft_Cons)
qed

subsection \<open>The ingestion handler\<close>

lemma headline_JNull [simp]: "headline JNull k = Inr JNull"
  by (simp add: headline_def)

lemma try_decode_Inl:
  "\<exists>reason detail. try_decode req c (Inl err) = (JNull, Some reason, Some detail, None) \<and> reason \<noteq> []"
  by (cases err) (simp_all add: unknown_exception_def)

lemma make_record_failed:
  "\<exists>r. make_record req (JNull, Some reason, detail, None) = Inr r
       \<and> body_raw r = get_data req \<and> parsed r = JNull \<and> parse_error r = Some reason"
  by (simp add: make_record_def)

lemma append_and_drain_eq:
  "append_and_drain r st =
     (respond (map format_command (commands st)),
      st\<lparr>history := appendleft r (history st), commands := []\<rparr>)"
  by (cases "commands st = []") (simp_all add: append_and_drain_def drain_def)

lemma recorded_append_and_drain [simp]: "recorded (Inr (append_and_drain r st)) = Some r"
  by (simp add: append_and_drain_eq appendleft_Cons)

lemma join_Cons: "join [c] (l # ls) = l @ concat (map ((#) c) ls)"
  by (induction ls arbitrary: l) simp_all

lemma respond_eq:
  "respond ls =
     Response (case ls of [] \<Rightarrow> ustr ''NOCOMMAND'' | l # ls' \<Rightarrow> l @ concat (map ((#) 10) ls'))
       200 [(''Content-Type'', ''text/plain; charset=utf-8'')]"
  by (cases ls) (simp_all add: respond_def join_Cons newline_def)

lemma response_of_webhook_failed:
  "response_of (mt4_webhook (req\<lparr>get_data := ''not json''\<rparr>) st)
     = Some (respond (map format_command (commands st)))"
  by (simp add: mt4_webhook_def strip_examples decode_examples make_record_def append_and_drain_eq
        del: str_exc.simps)

lemma length_remaining_of:
  "length (case remaining_of cleaned_body idx of None \<Rightarrow> [] | Some r \<Rightarrow> r) \<le> 200"
  by (simp add: remaining_of_def Let_def)

text \<open>
  What \<open>mt4_webhook\<close> does with a body that decodes: a value that counts as false is recorded
  with empty headline fields, an object is recorded with the headline fields it has, and any
  other value raises where the handler builds the record.
\<close>

lemma webhook_falsy:
  assumes "raw_decode (strip (get_data req)) = Inr (v, idx)" and "\<not> truthy v"
  shows "\<exists>r. mt4_webhook req st = Inr (append_and_drain r st)
           \<and> parsed r = v \<and> parse_error r = None
           \<and> remaining_data r = remaining_of (strip (get_data req)) idx
           \<and> account r = JNull \<and> server r = JNull \<and> balance r = JNull
           \<and> equity r = JNull \<and> floating_pnl r = JNull"
  using assms
  apply (simp add: mt4_webhook_def make_record_def headline_def)
  apply (rule exI, rule conjI, rule refl)
  apply simp
  done

lemma webhook_object:
  assumes "raw_decode (strip (get_data req)) = Inr (JObj d, idx)"
  shows "\<exists>r. mt4_webhook req st = Inr (append_and_drain r st)
           \<and> parsed r = JObj d \<and> parse_error r = None
           \<and> remaining_data r = remaining_of (strip (get_data req)) idx"
  using assms
  apply (cases "d = []")
   apply (simp_all add: mt4_webhook_def make_record_def headline_def)
   apply (rule exI, rule conjI, rule refl, simp)+
  done

lemma webhook_failed:
  assumes "raw_decode (strip (get_data req)) = Inl (JSONDecodeError msg pos)"
  shows "\<exists>r. mt4_webhook req st = Inr (append_and_drain r st)
           \<and> parsed r = JNull
           \<and> parse_error r = Some (ustr (str_exc (strip (get_data req)) (JSONDecodeError msg pos)))"
  using assms
  apply (simp add: mt4_webhook_def make_record_def del: str_exc.simps)
  apply (rule exI, rule conjI, rule refl)
  apply simp
  done

text \<open>
  C1.  If the body decodes to a value that is not an object and counts as true (a number
  other than zero, a text or an array that is not empty, \<open>true\<close>), \<open>mt4_webhook\<close> raises
  \<open>AttributeError\<close> where it builds the record (\<open>parsed_json.get\<close> on a value without that
  method), whatever the state and the rest of the request: the handler does not complete
  and no record is appended.
\<close>

theorem bare_value_raises:
  assumes "raw_decode (strip (get_data req)) = Inr (v, idx)"
    and "truthy v" and "\<forall>d. v \<noteq> JObj d"
  shows "mt4_webhook req st =
     Inl (AttributeError ([CHR 0x27] @ type_name v @ [CHR 0x27] @ '' object has no attribute ''
                          @ [CHR 0x27] @ ''get'' @ [CHR 0x27]))"
  using assms by (cases v) (simp_all add: mt4_webhook_def make_record_def headline_def)

theorem bare_value_raises_witness:
  "raw_decode (strip (get_data (example_request\<lparr>get_data := ''5''\<rparr>))) = Inr (JInt 5, 1)
   \<and> truthy (JInt 5) \<and> (\<forall>d. JInt 5 \<noteq> JObj d)
   \<and> mt4_webhook (example_request\<lparr>get_data := ''5''\<rparr>) init_state =
       Inl (AttributeError ([CHR 0x27] @ ''int'' @ [CHR 0x27] @ '' object has no attribute ''
                            @ [CHR 0x27] @ ''get'' @ [CHR 0x27]))
   \<and> raw_decode (strip (get_data (example_request\<lparr>get_data := ''[1]''\<rparr>))) = Inr (JArr [JInt 1], 3)
   \<and> truthy (JArr [JInt 1]) \<and> (\<forall>d. JArr [JInt 1] \<noteq> JObj d)
   \<and> mt4_webhook (example_request\<lparr>get_data := ''[1]''\<rparr>) init_state =
       Inl (AttributeError ([CHR 0x27] @ ''list'' @ [CHR 0x27] @ '' object has no attribute ''
                            @ [CHR 0x27] @ ''get'' @ [CHR 0x27]))"
proof -
  have a: "raw_decode (strip (get_data (example_request\<lparr>get_data := ''5''\<rparr>))) = Inr (JInt 5, 1)"
    by (simp add: strip_examples decode_examples)
  have b: "raw_decode (strip (get_data (example_request\<lparr>get_data := ''[1]''\<rparr>))) = Inr (JArr [JInt 1], 3)"
    by (simp add: strip_examples decode_examples)
  from bare_value_raises [OF a, of init_state] bare_value_raises [OF b, of init_state] a b
  show ?thesis by simp
qed

text \<open>
  C5.  If the stripped body does not decode, \<open>mt4_webhook\<close> returns normally.  The response
  has status 200, the header \<open>Content-Type: text/plain; charset=utf-8\<close> and as body \<open>NOCOMMAND\<close>
  when the queue is empty and otherwise the pending commands, a line feed before each but
  the first.  The history afterwards is the new record in front of the old ones, cut to 50
  records, and the queue is empty.  The record keeps the raw body, has no parsed value and
  has a reason that is not empty; for a \<open>JSONDecodeError\<close> the reason is its message with
  line, column and position.
\<close>

theorem webhook_parse_failure:
  assumes "raw_decode (strip (get_data req)) = Inl err"
  shows "\<exists>r reason.
           mt4_webhook req st =
             Inr (Response (case map format_command (commands st) of
                              [] \<Rightarrow> ustr ''NOCOMMAND''
                            | l # ls \<Rightarrow> l @ concat (map ((#) 10) ls))
                    200 [(''Content-Type'', ''text/plain; charset=utf-8'')],
                  st\<lparr>history := take 50 (r # history st), commands := []\<rparr>)
           \<and> body_raw r = get_data req \<and> parsed r = JNull
           \<and> parse_error r = Some reason \<and> reason \<noteq> []
           \<and> (\<forall>msg pos. err = JSONDecodeError msg pos
                  \<longrightarrow> reason = ustr (str_exc (strip (get_data req)) (JSONDecodeError msg pos)))"
proof -
  obtain reason detail where t: "try_decode req (strip (get_data req)) (Inl err)
      = (JNull, Some reason, Some detail, None)" and ne: "reason \<noteq> []"
    using try_decode_Inl by blast
  have js: "reason = ustr (str_exc (strip (get_data req)) (JSONDecodeError msg pos))"
    if "err = JSONDecodeError msg pos" for msg pos
    using t that by simp
  obtain r where r: "make_record req (JNull, Some reason, Some detail, None) = Inr r"
    and fields: "body_raw r = get_data req" "parsed r = JNull" "parse_error r = Some reason"
    using make_record_failed by blast
  have "mt4_webhook req st =
      Inr (Response (case map format_command (commands st) of
                       [] \<Rightarrow> ustr ''NOCOMMAND''
                     | l # ls \<Rightarrow> l @ concat (map ((#) 10) ls))
             200 [(''Content-Type'', ''text/plain; charset=utf-8'')],
           st\<lparr>history := take 50 (r # history st), commands := []\<rparr>)"
    by (simp add: mt4_webhook_def assms t r append_and_drain_eq respond_eq appendleft_Cons)
  with fields ne js show ?thesis by blast
qed

theorem webhook_parse_failure_witness:
  "raw_decode (strip (get_data example_request)) = Inl (JSONDecodeError ''Expecting value'' 0)
   \<and> (\<exists>r. mt4_webhook example_request init_state =
             Inr (Response (ustr ''NOCOMMAND'') 200 [(''Content-Type'', ''text/plain; charset=utf-8'')],
                  \<lparr>history = [r], commands = [], cmd_counter = 0\<rparr>)
          \<and> body_raw r = ''not json'' \<and> parsed r = JNull
          \<and> parse_error r = Some (ustr ''Expecting value: line 1 column 1 (char 0)''))
   \<and> raw_decode (strip (get_data (example_request\<lparr>get_data := ''  ''\<rparr>)))
       = Inl (JSONDecodeError ''Expecting value'' 0)
   \<and> (\<exists>r. mt4_webhook (example_request\<lparr>get_data := ''  ''\<rparr>)
               (snd (send_command example_form example_time init_state)) =
             Inr (Response (ustr ''BUY,EURUSD,0.1,1.1,0'') 200 [(''Content-Type'', ''text/plain; charset=utf-8'')],
                  \<lparr>history = [r], commands = [], cmd_counter = 1\<rparr>)
          \<and> body_raw r = ''  '' \<and> parsed r = JNull
          \<and> parse_error r = Some (ustr ''Expecting value: line 1 column 1 (char 0)''))"
proof -
  have h1: "raw_decode (strip (get_data example_request)) = Inl (JSONDecodeError ''Expecting value'' 0)"
    by (simp add: example_request_def strip_examples decode_examples)
  have h2: "raw_decode (strip (get_data (example_request\<lparr>get_data := ''  ''\<rparr>)))
      = Inl (JSONDecodeError ''Expecting value'' 0)"
    by (simp add: strip_examples decode_examples)
  have s1: "str_exc (strip (get_data example_request)) (JSONDecodeError ''Expecting value'' 0)
      = ''Expecting value: line 1 column 1 (char 0)''"
    by (simp add: example_request_def strip_examples str_exc_examples del: str_exc.simps)
  have s2: "str_exc (strip (get_data (example_request\<lparr>get_data := ''  ''\<rparr>)))
        (JSONDecodeError ''Expecting value'' 0)
      = ''Expecting value: line 1 column 1 (char 0)''"
    by (simp add: strip_examples str_exc_examples del: str_exc.simps)
  have q: "snd (send_command example_form example_time init_state)
      = \<lparr>history = [], commands = [the (build_command example_form example_time 0)], cmd_counter = 1\<rparr>"
    by (simp add: send_command_def enqueue_def build_example_form init_state_def)
  have f: "format_command (the (build_command example_form example_time 0)) = ustr ''BUY,EURUSD,0.1,1.1,0''"
    by (simp add: build_example_form format_command_def float_examples)
  from webhook_parse_failure [OF h1, of init_state]
  have a: "\<exists>r. mt4_webhook example_request init_state =
             Inr (Response (ustr ''NOCOMMAND'') 200 [(''Content-Type'', ''text/plain; charset=utf-8'')],
                  \<lparr>history = [r], commands = [], cmd_counter = 0\<rparr>)
          \<and> body_raw r = ''not json'' \<and> parsed r = JNull
          \<and> parse_error r = Some (ustr ''Expecting value: line 1 column 1 (char 0)'')"
    using s1 by (auto simp: init_state_def example_request_def simp del: str_exc.simps)
  from webhook_parse_failure [OF h2, of "snd (send_command example_form example_time init_state)"]
  have b: "\<exists>r. mt4_webhook (example_request\<lparr>get_data := ''  ''\<rparr>)
               (snd (send_command example_form example_time init_state)) =
             Inr (Response (ustr ''BUY,EURUSD,0.1,1.1,0'') 200 [(''Content-Type'', ''text/plain; charset=utf-8'')],
                  \<lparr>history = [r], commands = [], cmd_counter = 1\<rparr>)
          \<and> body_raw r = ''  '' \<and> parsed r = JNull
          \<and> parse_error r = Some (ustr ''Expecting value: line 1 column 1 (char 0)'')"
    unfolding q using s2 by (auto simp: f simp del: str_exc.simps)
  from h1 h2 a b show ?thesis by blast
qed

text \<open>
  C6.  For the body \<open>{"a":1}{"b":2}\<close> the decoder returns the object \<open>{"a": 1}\<close> and the
  position 7, and the record has this object as parsed value, \<open>{"b":2}\<close> as remaining data and
  no error.  Remaining data is never longer than 200 characters and is not decoded: after the
  same object, 250 letters \<open>x\<close> between blanks leave the first 200 of them as remaining data,
  and no error.  For the empty body and for the body \<open>not json\<close> the record has no parsed
  value and the reason \<open>Expecting value: line 1 column 1 (char 0)\<close>.
\<close>

theorem split_correctness:
  \<open>raw_decode (strip ''{"a":1}{"b":2}'') = Inr (JObj [(ustr ''a'', JInt 1)], 7)
   \<and> map_option parsed (recorded (mt4_webhook (req\<lparr>get_data := ''{"a":1}{"b":2}''\<rparr>) st))
       = Some (JObj [(ustr ''a'', JInt 1)])
   \<and> map_option remaining_data (recorded (mt4_webhook (req\<lparr>get_data := ''{"a":1}{"b":2}''\<rparr>) st))
       = Some (Some ''{"b":2}'')
   \<and> map_option parse_error (recorded (mt4_webhook (req\<lparr>get_data := ''{"a":1}{"b":2}''\<rparr>) st))
       = Some None
   \<and> length (case remaining_of cleaned_body idx of None \<Rightarrow> [] | Some r \<Rightarrow> r) \<le> 200
   \<and> map_option parsed (recorded (mt4_webhook (req\<lparr>get_data := long_body\<rparr>) st))
       = Some (JObj [(ustr ''a'', JInt 1)])
   \<and> map_option remaining_data (recorded (mt4_webhook (req\<lparr>get_data := long_body\<rparr>) st))
       = Some (Some (replicate 200 (CHR ''x'')))
   \<and> map_option parse_error (recorded (mt4_webhook (req\<lparr>get_data := long_body\<rparr>) st))
       = Some None
   \<and> map_option parsed (recorded (mt4_webhook (req\<lparr>get_data := []\<rparr>) st)) = Some JNull
   \<and> map_option parse_error (recorded (mt4_webhook (req\<lparr>get_data := []\<rparr>) st))
       = Some (Some (ustr ''Expecting value: line 1 column 1 (char 0)''))
   \<and> map_option parsed (recorded (mt4_webhook (req\<lparr>get_data := ''not json''\<rparr>) st)) = Some JNull
   \<and> map_option parse_error (recorded (mt4_webhook (req\<lparr>get_data := ''not json''\<rparr>) st))
       = Some (Some (ustr ''Expecting value: line 1 column 1 (char 0)''))\<close>
proof -
  have d: \<open>raw_decode (strip ''{"a":1}{"b":2}'') = Inr (JObj [(ustr ''a'', JInt 1)], 7)\<close>
    by (simp add: strip_examples decode_examples)
  obtain r1 where r1: \<open>mt4_webhook (req\<lparr>get_data := ''{"a":1}{"b":2}''\<rparr>) st = Inr (append_and_drain r1 st)\<close>
    \<open>parsed r1 = JObj [(ustr ''a'', JInt 1)]\<close> \<open>parse_error r1 = None\<close>
    \<open>remaining_data r1 = Some ''{"b":2}''\<close>
    using webhook_object [of \<open>req\<lparr>get_data := ''{"a":1}{"b":2}''\<rparr>\<close> \<open>[(ustr ''a'', JInt 1)]\<close> 7 st] d
    by (auto simp: strip_examples remaining_examples)
  obtain r2 where r2: "mt4_webhook (req\<lparr>get_data := long_body\<rparr>) st = Inr (append_and_drain r2 st)"
    "parsed r2 = JObj [(ustr ''a'', JInt 1)]" "parse_error r2 = None"
    "remaining_data r2 = Some (replicate 200 (CHR ''x''))"
    using webhook_object [of "req\<lparr>get_data := long_body\<rparr>" "[(ustr ''a'', JInt 1)]" 7 st]
    by (auto simp: long_body_examples)
  obtain r3 where r3: "mt4_webhook (req\<lparr>get_data := []\<rparr>) st = Inr (append_and_drain r3 st)"
    "parsed r3 = JNull"
    "parse_error r3 = Some (ustr ''Expecting value: line 1 column 1 (char 0)'')"
    using webhook_failed [of "req\<lparr>get_data := []\<rparr>" "''Expecting value''" 0 st]
    by (auto simp: strip_examples decode_examples str_exc_examples simp del: str_exc.simps)
  obtain r4 where r4: "mt4_webhook (req\<lparr>get_data := ''not json''\<rparr>) st = Inr (append_and_drain r4 st)"
    "parsed r4 = JNull"
    "parse_error r4 = Some (ustr ''Expecting value: line 1 column 1 (char 0)'')"
    using webhook_failed [of "req\<lparr>get_data := ''not json''\<rparr>" "''Expecting value''" 0 st]
    by (auto simp: strip_examples decode_examples str_exc_examples simp del: str_exc.simps)
  show ?thesis
    unfolding r1 r2 r3 r4 recorded_append_and_drain
    using d r1(2-) r2(2-) r3(2-) r4(2-) length_remaining_of [of cleaned_body idx]
    by simp
qed










subsection \<open>The command queue\<close>

text \<open>
  C3.  \<open>send_command\<close> with symbol \<open>EURUSD\<close>, direction \<open>BUY\<close> and volume \<open>-1\<close> appends a
  command whose volume is the float \<open>-1.0\<close>, which is not positive, and the next response
  sends it as \<open>BUY,EURUSD,-1.0\<close>.
\<close>

theorem negative_volume_enqueued:
  "commands (snd (send_command negative_form t st))
     = commands st @ [\<lparr>cmd_id = cmd_counter st, symbol = ustr ''EURUSD'', direction = ustr ''BUY'',
                       volume = Finite True 4503599627370496 (- 52), sl = None, tp = None,
                       timestamp = strftime_time t\<rparr>]
   \<and> \<not> float_positive (Finite True 4503599627370496 (- 52))
   \<and> response_of (mt4_webhook (req\<lparr>get_data := ''not json''\<rparr>)
         (snd (send_command negative_form t (st\<lparr>commands := []\<rparr>))))
       = Some (Response (ustr ''BUY,EURUSD,-1.0'') 200 [(''Content-Type'', ''text/plain; charset=utf-8'')])"
  by (simp add: send_command_def enqueue_def build_negative_form response_of_webhook_failed
        respond_eq format_command_def float_examples)

text \<open>
  A request to \<open>send_command\<close> with an empty symbol, a direction other than \<open>BUY\<close> and \<open>SELL\<close>,
  a volume that is missing or not a number, or a stop loss or take profit that is given and
  not a number, leaves the whole state unchanged: the queue and the counter.
\<close>

lemma send_command_rejected:
  assumes "upper (strip (form_get form ''symbol'')) = []
         \<or> upper (strip (form_get form ''direction'')) \<notin> {ustr ''BUY'', ustr ''SELL''}
         \<or> strip (form_get form ''volume'') = []
         \<or> py_float (strip (form_get form ''volume'')) = None
         \<or> (strip (form_get form ''sl'') \<noteq> [] \<and> py_float (strip (form_get form ''sl'')) = None)
         \<or> (strip (form_get form ''tp'') \<noteq> [] \<and> py_float (strip (form_get form ''tp'')) = None)"
  shows "send_command form t st = (Redirect url_for_index, st)"
proof -
  from assms have "build_command form t (cmd_counter st) = None"
    by (auto simp: build_command_def Let_def float_if_def)
  then show ?thesis
    by (simp add: send_command_def)
qed

text \<open>
  The two parts of the handler, put together without another request in between, are
  \<open>send_command\<close>; two requests one after the other get the ids \<open>c\<close> and \<open>c + 1\<close>.
\<close>

lemma send_command_parts:
  "send_command form t st
     = (Redirect url_for_index, locked_part (build_command form t (cmd_counter st)) st)"
  by (cases "build_command form t (cmd_counter st)") (simp_all add: send_command_def)

lemma one_after_the_other:
  "map cmd_id (commands (snd (send_command plain_form t2 (snd (send_command example_form t1 st)))))
     = map cmd_id (commands st) @ [cmd_counter st, cmd_counter st + 1]"
  by (simp add: send_command_def enqueue_def build_example_form build_plain_form)

text \<open>
  C8.  Two requests to \<open>send_command\<close> that both read the counter before either of them
  takes the lock append two commands with the same id, the counter of the state they
  started from; from the initial state the ids in the queue are 0 and 0.  The ids are not
  strictly increasing, and one id is used twice.
\<close>

theorem overlapping_requests_share_an_id:
  "commands (send_command_overlapping example_form t1 plain_form t2 st)
     = commands st @
       [\<lparr>cmd_id = cmd_counter st, symbol = ustr ''EURUSD'', direction = ustr ''BUY'',
         volume = Finite False 7205759403792794 (- 56),
         sl = Some (Finite False 4953959590107546 (- 52)), tp = None,
         timestamp = strftime_time t1\<rparr>,
        \<lparr>cmd_id = cmd_counter st, symbol = ustr ''EURUSD'', direction = ustr ''BUY'',
         volume = Finite False 7205759403792794 (- 56), sl = None, tp = None,
         timestamp = strftime_time t2\<rparr>]
   \<and> cmd_counter (send_command_overlapping example_form t1 plain_form t2 st) = cmd_counter st + 2
   \<and> map cmd_id (commands (send_command_overlapping example_form t1 plain_form t2 init_state)) = [0, 0]
   \<and> \<not> sorted_wrt (<) (map cmd_id (commands (send_command_overlapping example_form t1 plain_form t2 init_state)))
   \<and> \<not> distinct (map cmd_id (commands (send_command_overlapping example_form t1 plain_form t2 init_state)))"
  by (simp add: send_command_overlapping_def enqueue_def build_example_form build_plain_form
        init_state_def)

text \<open>
  C9, as the claim states it: with one command in the queue, \<open>delete_command\<close> at position 7
  changes nothing and answers with the redirect to the index page, which is also the answer
  of the successful \<open>delete_command\<close> at position 0; the response does not report a failure.
\<close>

theorem delete_reports_nothing:
  "length (commands (snd (send_command example_form example_time init_state))) = 1
   \<and> delete_command 7 (snd (send_command example_form example_time init_state))
       = (Redirect url_for_index, snd (send_command example_form example_time init_state))
   \<and> fst (delete_command 0 (snd (send_command example_form example_time init_state)))
       = Redirect url_for_index
   \<and> fst (delete_command 7 (snd (send_command example_form example_time init_state)))
       = fst (delete_command 0 (snd (send_command example_form example_time init_state)))
   \<and> commands (snd (delete_command 0 (snd (send_command example_form example_time init_state)))) = []"
  by (simp add: send_command_def enqueue_def build_example_form delete_command_def init_state_def)

text \<open>
  C9, amended: for every position outside the bounds of the queue \<open>delete_command\<close> returns
  (it does not raise), leaves the state unchanged and answers with the redirect to the index
  page.
\<close>

theorem delete_out_of_range:
  "\<not> (0 \<le> index \<and> index < int (length (commands st))) \<Longrightarrow>
     delete_command index st = (Redirect url_for_index, st)"
  by (auto simp: delete_command_def)

theorem delete_out_of_range_witness:
  "\<not> (0 \<le> (7::int) \<and> 7 < int (length (commands init_state)))
   \<and> delete_command 7 init_state = (Redirect url_for_index, init_state)
   \<and> \<not> (0 \<le> (- 1::int) \<and> - 1 < int (length (commands init_state)))
   \<and> delete_command (- 1) init_state = (Redirect url_for_index, init_state)
   \<and> commands (snd (send_command example_form example_time init_state))
       = [\<lparr>cmd_id = 0, symbol = ustr ''EURUSD'', direction = ustr ''BUY'',
           volume = Finite False 7205759403792794 (- 56),
           sl = Some (Finite False 4953959590107546 (- 52)), tp = None,
           timestamp = strftime_time example_time\<rparr>]
   \<and> \<not> (0 \<le> (1::int)
        \<and> 1 < int (length (commands (snd (send_command example_form example_time init_state)))))
   \<and> delete_command 1 (snd (send_command example_form example_time init_state))
       = (Redirect url_for_index, snd (send_command example_form example_time init_state))
   \<and> \<not> (0 \<le> (- 1::int)
        \<and> - 1 < int (length (commands (snd (send_command example_form example_time init_state)))))
   \<and> delete_command (- 1) (snd (send_command example_form example_time init_state))
       = (Redirect url_for_index, snd (send_command example_form example_time init_state))"
proof -
  have q: "commands (snd (send_command example_form example_time init_state))
       = [\<lparr>cmd_id = 0, symbol = ustr ''EURUSD'', direction = ustr ''BUY'',
           volume = Finite False 7205759403792794 (- 56),
           sl = Some (Finite False 4953959590107546 (- 52)), tp = None,
           timestamp = strftime_time example_time\<rparr>]"
    by (simp add: send_command_def enqueue_def build_example_form init_state_def)
  have n: "length (commands (snd (send_command example_form example_time init_state))) = 1"
    by (simp add: q)
  have e: "commands init_state = []"
    by (simp add: init_state_def)
  from delete_out_of_range [of 7 init_state] delete_out_of_range [of "- 1" init_state]
    delete_out_of_range [of 1 "snd (send_command example_form example_time init_state)"]
    delete_out_of_range [of "- 1" "snd (send_command example_form example_time init_state)"]
    q n e
  show ?thesis by simp
qed

text \<open>
  C10.  A rejected request changes nothing (\<open>send_command\<close> with the form without a symbol
  returns the state it was given), but the ids given out are not 0, 1, 2: after two
  overlapping requests from the initial state, a rejected request and one more accepted
  request, the commands in the queue have the ids 0, 0 and 2, the counter is 3, and no
  command has the id 1.
\<close>

theorem overlapping_requests_skip_an_id:
  "send_command no_symbol_form t3 (send_command_overlapping example_form t1 plain_form t2 init_state)
     = (Redirect url_for_index, send_command_overlapping example_form t1 plain_form t2 init_state)
   \<and> map cmd_id (commands (snd (send_command negative_form t4
        (snd (send_command no_symbol_form t3
           (send_command_overlapping example_form t1 plain_form t2 init_state))))))
     = [0, 0, 2]
   \<and> cmd_counter (snd (send_command negative_form t4
        (snd (send_command no_symbol_form t3
           (send_command_overlapping example_form t1 plain_form t2 init_state)))))
     = 3"
  by (simp add: send_command_def send_command_overlapping_def enqueue_def build_example_form
        build_plain_form build_negative_form build_no_symbol_form init_state_def)

end
